theory Spec2Isabelle
  imports Complex_Main
begin

section \<open>JavaScript values\<close>

text \<open>
  The service is written in JavaScript. Values that cross function boundaries untyped
  (promise results, response bodies, parsed payloads) are modelled by one datatype.
  Strings are byte strings (a text is held as its UTF-8 bytes); on ASCII text this is
  what JavaScript holds as well, and the string operations (\<open>trim\<close>, \<open>\s\<close>,
  \<open>toLowerCase\<close>, replacement by character) are modelled on ASCII text: the Unicode
  white space and letters beyond it are left as they are.
  A number is the rational it denotes (rounding to a double is not modelled, and NaN
  and the infinities are not represented). An object is the list of its own properties
  in insertion order, with distinct keys.
\<close>

datatype jsval =
    JUndefined
  | JNull
  | JBool bool
  | JNum rat
  | JStr string
  | JArr "jsval list"
  | JObj "(string \<times> jsval) list"

text \<open>ToBoolean: the falsy values are undefined, null, false, 0 and the empty string.\<close>

fun truthy :: "jsval \<Rightarrow> bool" where
  "truthy JUndefined = False"
| "truthy JNull = False"
| "truthy (JBool b) = b"
| "truthy (JNum r) = (r \<noteq> 0)"
| "truthy (JStr s) = (s \<noteq> [])"
| "truthy (JArr xs) = True"
| "truthy (JObj kvs) = True"

text \<open>\<open>a || b\<close>\<close>

definition js_or :: "jsval \<Rightarrow> jsval \<Rightarrow> jsval" where
  "js_or a b = (if truthy a then a else b)"

text \<open>
  An \<open>Error\<close> object, with the three fields the code reads: \<open>error.code\<close>,
  \<open>error.message\<close> and \<open>error.response?.status\<close>.
\<close>

record js_error =
  code :: "string option"
  message :: string
  response_status :: "int option"

definition Error :: "string \<Rightarrow> js_error" where
  "Error msg = \<lparr> code = None, message = msg, response_status = None \<rparr>"

section \<open>scraper.js: getSettledValue\<close>

text \<open>An element of the array \<open>Promise.allSettled\<close> resolves to.\<close>

datatype settled = Fulfilled jsval | Rejected js_error

text \<open>
  \<^verbatim>\<open>
  const getSettledValue = (settledPromise, defaultValue) => {
    if (settledPromise.status === 'fulfilled') {
      return settledPromise.value || defaultValue;
    }
    console.warn(...);
    return defaultValue;
  };
  \<close>
\<close>

fun getSettledValue :: "settled \<Rightarrow> jsval \<Rightarrow> jsval" where
  "getSettledValue (Fulfilled v) defaultValue = js_or v defaultValue"
| "getSettledValue (Rejected reason) defaultValue = defaultValue"

section \<open>utils.js: cache keys, slugs\<close>

text \<open>The character class \<open>[a-zA-Z0-9\-_]\<close>.\<close>

definition in_range :: "char \<Rightarrow> char \<Rightarrow> char \<Rightarrow> bool" where
  "in_range lo hi c \<longleftrightarrow> (of_char lo :: nat) \<le> of_char c \<and> (of_char c :: nat) \<le> of_char hi"

definition slug_char :: "char \<Rightarrow> bool" where
  "slug_char c \<longleftrightarrow>
     in_range CHR ''a'' CHR ''z'' c \<or> in_range CHR ''A'' CHR ''Z'' c \<or>
     in_range CHR ''0'' CHR ''9'' c \<or> c = CHR ''-'' \<or> c = CHR ''_''"

text \<open>\<open>String(arg).replace(/[^a-zA-Z0-9\-_]/g, '_')\<close> on a string argument.\<close>

definition sanitizeArg :: "string \<Rightarrow> string" where
  "sanitizeArg s = map (\<lambda>c. if slug_char c then c else CHR ''_'') s"

text \<open>\<open>Array.prototype.join\<close> on strings.\<close>

fun join :: "string \<Rightarrow> string list \<Rightarrow> string" where
  "join sep [] = []"
| "join sep [x] = x"
| "join sep (x # y # ys) = x @ sep @ join sep (y # ys)"

text \<open>
  \<^verbatim>\<open>
  generateCacheKey: (prefix, ...args) => {
    const sanitizedArgs = args
      .filter(arg => arg != null)
      .map(arg => String(arg).replace(/[^a-zA-Z0-9\-_]/g, '_'));
    return `${prefix}:${sanitizedArgs.join(':')}`;
  },
  \<close>
  Every caller passes strings (a slug, a sanitized query); an argument is a string or
  \<open>None\<close> for \<open>null\<close>/\<open>undefined\<close>.
\<close>

definition generateCacheKey :: "string \<Rightarrow> string option list \<Rightarrow> string" where
  "generateCacheKey prefix args =
     prefix @ '':'' @ join '':'' (map sanitizeArg (List.map_filter (\<lambda>arg. arg) args))"


text \<open>The class \<open>\s\<close> on ASCII: tab, line feed, vertical tab, form feed, carriage return, space.\<close>

definition is_space :: "char \<Rightarrow> bool" where
  "is_space c \<longleftrightarrow> (of_char c :: nat) \<in> {9, 10, 11, 12, 13, 32}"

text \<open>\<open>String.prototype.trim\<close>\<close>

definition trim :: "string \<Rightarrow> string" where
  "trim s = rev (dropWhile is_space (rev (dropWhile is_space s)))"

text \<open>\<open>.replace(/\s+/g, ' ')\<close>: every maximal run of white space becomes one space.\<close>

function collapse_spaces :: "string \<Rightarrow> string" where
  "collapse_spaces [] = []"
| "collapse_spaces (c # cs) =
     (if is_space c then CHR '' '' # collapse_spaces (dropWhile is_space cs)
      else c # collapse_spaces cs)"
  by pat_completeness auto
termination
  by (relation "measure length") (auto simp: length_dropWhile_le less_Suc_eq_le)

text \<open>
  \<^verbatim>\<open>
  sanitizeQuery: (query) => {
    if (!query || typeof query !== 'string') return '';
    return query.trim().replace(/[<>\"'&]/g, '').replace(/\s+/g, ' ').substring(0, 100);
  },
  \<close>
\<close>

definition sanitizeQuery :: "jsval \<Rightarrow> string" where
  "sanitizeQuery query =
     (case query of
        JStr q \<Rightarrow>
          if \<not> truthy query then []
          else take 100 (collapse_spaces
                 (filter (\<lambda>c. c \<notin> {CHR ''<'', CHR ''>'', CHR 0x22, CHR 0x27, CHR ''&''}) (trim q)))
      | _ \<Rightarrow> [])"

text \<open>
  \<^verbatim>\<open>
  isValidSlug: (slug) => {
    return slug && typeof slug === 'string' && /^[a-zA-Z0-9\-_]+$/.test(slug);
  },
  \<close>
  The result is used as a condition only; the model gives its truth value.
\<close>

definition isValidSlug :: "jsval \<Rightarrow> bool" where
  "isValidSlug slug =
     (truthy slug \<and> (case slug of JStr s \<Rightarrow> s \<noteq> [] \<and> list_all slug_char s | _ \<Rightarrow> False))"

text \<open>
  \<^verbatim>\<open>
  buildUrl: (baseUrl, path) => {
    const cleanBase = baseUrl.replace(/\/+$/, '');
    const cleanPath = path.replace(/^\/+/, '');
    return `${cleanBase}/${cleanPath}`;
  },
  \<close>
\<close>

definition buildUrl :: "string \<Rightarrow> string \<Rightarrow> string" where
  "buildUrl baseUrl path =
     (let cleanBase = rev (dropWhile (\<lambda>c. c = CHR ''/'') (rev baseUrl));
          cleanPath = dropWhile (\<lambda>c. c = CHR ''/'') path
      in cleanBase @ ''/'' @ cleanPath)"

text \<open>Decimal digits of a number, as a template literal prints a status code.\<close>

fun show_nat :: "nat \<Rightarrow> string" where
  "show_nat n =
     (if n < 10 then [char_of (48 + n)] else show_nat (n div 10) @ [char_of (48 + n mod 10)])"

declare show_nat.simps [simp del]

definition show_int :: "int \<Rightarrow> string" where
  "show_int i = (if i < 0 then CHR ''-'' # show_nat (nat (- i)) else show_nat (nat i))"

text \<open>\<open>String.prototype.includes\<close> and \<open>toLowerCase\<close> (on ASCII letters).\<close>

fun js_includes :: "string \<Rightarrow> string \<Rightarrow> bool" where
  "js_includes [] sub = (sub = [])"
| "js_includes (c # cs) sub = (take (length sub) (c # cs) = sub \<or> js_includes cs sub)"

definition toLowerCase :: "string \<Rightarrow> string" where
  "toLowerCase s =
     map (\<lambda>c. if in_range CHR ''A'' CHR ''Z'' c then char_of (of_char c + (32::nat)) else c) s"

text \<open>
  \<^verbatim>\<open>
  handleError: (error) => {
    if (error.code === 'ECONNABORTED' || error.message.includes('timeout')) {
      return { status: 408, message: 'Request Timeout: The target server took too long to respond.' };
    }
    if (error.response) {
      const { status } = error.response;
      if (status === 404) return { status: 404, message: 'Content Not Found on the target server.' };
      if (status >= 400) return { status, message: `The target server responded with status ${status}.` };
    }
    if (error.message.toLowerCase().includes('not found')) {
      return { status: 404, message: 'Content Not Found' };
    }
    return { status: 500, message: 'Internal Server Error' };
  },
  \<close>
  The result is the pair of \<open>status\<close> and \<open>message\<close>.
\<close>

definition handleError :: "js_error \<Rightarrow> int \<times> string" where
  "handleError error =
     (if code error = Some ''ECONNABORTED'' \<or> js_includes (message error) ''timeout''
      then (408, ''Request Timeout: The target server took too long to respond.'')
      else
        (case (case response_status error of
                 Some status \<Rightarrow>
                   if status = 404 then Some (404, ''Content Not Found on the target server.'')
                   else if status \<ge> 400
                     then Some (status, ''The target server responded with status '' @ show_int status @ ''.'')
                     else None
               | None \<Rightarrow> None) of
           Some info \<Rightarrow> info
         | None \<Rightarrow>
             if js_includes (toLowerCase (message error)) ''not found''
             then (404, ''Content Not Found'')
             else (500, ''Internal Server Error'')))"

text \<open>
  What one run of retryRequest does, in order: a call of \<open>requestFn\<close> (numbered from 0)
  or a wait of so many milliseconds.
\<close>

datatype retry_event = Called nat | Waited int

text \<open>
  \<open>error.response?.status >= 400 && error.response?.status !== 429\<close>; an error without a
  response compares \<open>undefined >= 400\<close>, which is false.
\<close>

definition no_retry_status :: "js_error \<Rightarrow> bool" where
  "no_retry_status error =
     (case response_status error of Some status \<Rightarrow> status \<ge> 400 \<and> status \<noteq> 429 | None \<Rightarrow> False)"

text \<open>
  \<^verbatim>\<open>
  retryRequest: async (requestFn, maxRetries = 2, delay = 1000) => {
    for (let i = 0; i <= maxRetries; i++) {
      try {
        return await requestFn();
      } catch (error) {
        if (i === maxRetries) throw error;
        if (error.response?.status >= 400 && error.response?.status !== 429) {
          throw error;
        }
        console.warn(...);
        await new Promise(resolve => setTimeout(resolve, delay * (i + 1))); // Linear backoff
      }
    }
  },
  \<close>
  \<open>requestFn i\<close> is the outcome of the call number \<open>i\<close>: \<open>Inl\<close> what it threw, \<open>Inr\<close> what
  it returned. The loop is \<open>retry_loop\<close>, started at \<open>i = 0\<close>. The result is \<open>Inl\<close> the error
  thrown, \<open>Inr (Some v)\<close> the value returned, or \<open>Inr None\<close> when the loop ends without
  a call (a negative \<open>maxRetries\<close>) and the function returns \<open>undefined\<close>.
\<close>

function retry_loop ::
  "(nat \<Rightarrow> js_error + 'a) \<Rightarrow> int \<Rightarrow> int \<Rightarrow> nat \<Rightarrow> (js_error + 'a option) \<times> retry_event list" where
  "retry_loop requestFn maxRetries delay i =
     (if int i \<le> maxRetries then
        (case requestFn i of
           Inr v \<Rightarrow> (Inr (Some v), [Called i])
         | Inl error \<Rightarrow>
             if int i = maxRetries then (Inl error, [Called i])
             else if no_retry_status error then (Inl error, [Called i])
             else
               (let (r, events) = retry_loop requestFn maxRetries delay (i + 1)
                in (r, Called i # Waited (delay * (int i + 1)) # events)))
      else (Inr None, []))"
  by pat_completeness auto
termination
  by (relation "measure (\<lambda>(requestFn, maxRetries, delay, i). nat (maxRetries + 1 - int i))") auto

declare retry_loop.simps [simp del]

definition retryRequest ::
  "(nat \<Rightarrow> js_error + 'a) \<Rightarrow> int \<Rightarrow> int \<Rightarrow> (js_error + 'a option) \<times> retry_event list" where
  "retryRequest requestFn maxRetries delay = retry_loop requestFn maxRetries delay 0"

text \<open>The number of calls of \<open>requestFn\<close> in a run, and the waits of the run in order.\<close>

definition calls :: "retry_event list \<Rightarrow> nat" where
  "calls events = length (filter (\<lambda>e. case e of Called i \<Rightarrow> True | Waited d \<Rightarrow> False) events)"

definition waits :: "retry_event list \<Rightarrow> int list" where
  "waits events = List.map_filter (\<lambda>e. case e of Called i \<Rightarrow> None | Waited d \<Rightarrow> Some d) events"


section \<open>The HTTP client\<close>

text \<open>
  What the upstream site does with one request: no response at all (network error,
  timeout), or a response with a status code and a body.
\<close>

datatype 'd http_outcome = NoResponse js_error | Response int 'd

text \<open>
  The client of utils.js is created with \<open>validateStatus: (status) => status < 500\<close>:
  axios resolves the promise of a request when \<open>validateStatus\<close> accepts the status and
  rejects it with an error that carries the response otherwise. The result is \<open>Inl\<close> the
  error or \<open>Inr\<close> the response body (\<open>response.data\<close>).
\<close>

definition validateStatus :: "int \<Rightarrow> bool" where
  "validateStatus status \<longleftrightarrow> status < 500"

definition httpClient :: "'d http_outcome \<Rightarrow> js_error + 'd" where
  "httpClient outcome =
     (case outcome of
        NoResponse error \<Rightarrow> Inl error
      | Response status data \<Rightarrow>
          if validateStatus status then Inr data
          else Inl \<lparr> code = Some ''ERR_BAD_RESPONSE'',
                     message = ''Request failed with status code '' @ show_int status,
                     response_status = Some status \<rparr>)"

text \<open>
  A POST to \<open>/wp-admin/admin-ajax.php\<close>: the URL, the referer header when one is sent,
  and the fields of the form body.
\<close>

record ajax_request =
  url :: string
  referer :: "string option"
  form :: "(string \<times> jsval) list"

section \<open>Objects\<close>

text \<open>\<open>obj[key] = value\<close>: an existing property keeps its place, a new one goes last.\<close>

fun obj_set :: "(string \<times> jsval) list \<Rightarrow> string \<Rightarrow> jsval \<Rightarrow> (string \<times> jsval) list" where
  "obj_set [] key v = [(key, v)]"
| "obj_set ((k, w) # kvs) key v = (if k = key then (k, v) # kvs else (k, w) # obj_set kvs key v)"

definition obj_set_all :: "(string \<times> jsval) list \<Rightarrow> (string \<times> jsval) list \<Rightarrow> (string \<times> jsval) list" where
  "obj_set_all obj kvs = foldl (\<lambda>acc (k, v). obj_set acc k v) obj kvs"

text \<open>
  \<open>value?.key\<close> for the keys the code reads (\<open>data\<close>, \<open>success\<close>): the property of an
  object, and \<open>undefined\<close> on every other value, which has no property of that name.
\<close>

definition js_get :: "jsval \<Rightarrow> string \<Rightarrow> jsval" where
  "js_get v key =
     (case v of
        JObj kvs \<Rightarrow> (case map_of kvs key of Some w \<Rightarrow> w | None \<Rightarrow> JUndefined)
      | _ \<Rightarrow> JUndefined)"

text \<open>
  The own enumerable properties that \<open>{...value}\<close> copies: those of an object, the
  indexed elements of an array, the indexed characters of a string, none otherwise.
\<close>

definition spread :: "jsval \<Rightarrow> (string \<times> jsval) list" where
  "spread v =
     (case v of
        JObj kvs \<Rightarrow> kvs
      | JArr xs \<Rightarrow> map (\<lambda>i. (show_nat i, xs ! i)) [0 ..< length xs]
      | JStr s \<Rightarrow> map (\<lambda>i. (show_nat i, JStr [s ! i])) [0 ..< length s]
      | _ \<Rightarrow> [])"

section \<open>Node built-ins: Buffer, JSON\<close>

subsection \<open>Base64\<close>

text \<open>
  \<open>Buffer.from(string, 'base64')\<close> accepts the standard and the URL-safe alphabet, skips
  every character outside them, and stops at the first \<open>=\<close>. Four characters give three
  bytes; a last group of three gives two bytes, of two gives one, of one gives none.
  It never throws on a string. A buffer is a list of bytes, each a \<open>char\<close>.
\<close>

definition unbase64 :: "char \<Rightarrow> nat option" where
  "unbase64 c =
     (if in_range CHR ''A'' CHR ''Z'' c then Some (of_char c - 65)
      else if in_range CHR ''a'' CHR ''z'' c then Some (of_char c - 97 + 26)
      else if in_range CHR ''0'' CHR ''9'' c then Some (of_char c - 48 + 52)
      else if c = CHR ''+'' \<or> c = CHR ''-'' then Some 62
      else if c = CHR ''/'' \<or> c = CHR ''_'' then Some 63
      else None)"

fun base64_sextets :: "string \<Rightarrow> nat list" where
  "base64_sextets [] = []"
| "base64_sextets (c # cs) =
     (if c = CHR ''='' then []
      else case unbase64 c of Some v \<Rightarrow> v # base64_sextets cs | None \<Rightarrow> base64_sextets cs)"

fun sextets_to_bytes :: "nat list \<Rightarrow> string" where
  "sextets_to_bytes (a # b # c # d # rest) =
     char_of (a * 4 + b div 16) # char_of ((b mod 16) * 16 + c div 4) # char_of ((c mod 4) * 64 + d)
       # sextets_to_bytes rest"
| "sextets_to_bytes [a, b, c] = [char_of (a * 4 + b div 16), char_of ((b mod 16) * 16 + c div 4)]"
| "sextets_to_bytes [a, b] = [char_of (a * 4 + b div 16)]"
| "sextets_to_bytes _ = []"

definition base64_decode :: "string \<Rightarrow> string" where
  "base64_decode s = sextets_to_bytes (base64_sextets s)"

text \<open>
  \<open>Buffer.from(value, 'base64')\<close> on any value: a string is decoded; a number, a boolean
  or a plain object is rejected with a TypeError. (Node copies an array bytewise; the
  upstream sends base64 text, and the model rejects every value that is not a string.)
\<close>

definition Buffer_from_base64 :: "jsval \<Rightarrow> js_error + string" where
  "Buffer_from_base64 v =
     (case v of
        JStr s \<Rightarrow> Inr (base64_decode s)
      | _ \<Rightarrow> Inl (Error ''The first argument must be of type string or an instance of Buffer''))"

subsection \<open>UTF-8\<close>

text \<open>
  \<open>buffer.toString('utf-8')\<close>. A text is held as its UTF-8 bytes, so decoding keeps every
  well-formed sequence and replaces each ill-formed one by U+FFFD (bytes EF BF BD), as a
  decoder of the Encoding standard does: a lead byte sets how many continuation bytes
  are needed and the range of the next one; a byte outside the range ends the sequence
  with an error and is then read again as the start of a new one.
\<close>

definition utf8_lead :: "nat \<Rightarrow> (nat \<times> nat \<times> nat) option" where
  "utf8_lead b =
     (if 0xC2 \<le> b \<and> b \<le> 0xDF then Some (1, 0x80, 0xBF)
      else if b = 0xE0 then Some (2, 0xA0, 0xBF)
      else if b = 0xED then Some (2, 0x80, 0x9F)
      else if 0xE1 \<le> b \<and> b \<le> 0xEF then Some (2, 0x80, 0xBF)
      else if b = 0xF0 then Some (3, 0x90, 0xBF)
      else if b = 0xF4 then Some (3, 0x80, 0x8F)
      else if 0xF1 \<le> b \<and> b \<le> 0xF3 then Some (3, 0x80, 0xBF)
      else None)"

definition replacement :: string where
  "replacement = [char_of (0xEF :: nat), char_of (0xBF :: nat), char_of (0xBD :: nat)]"

fun utf8_scan :: "string \<Rightarrow> nat \<Rightarrow> nat \<Rightarrow> nat \<Rightarrow> string \<Rightarrow> string" where
  "utf8_scan pending needed lower upper [] = (if needed = 0 then [] else replacement)"
| "utf8_scan pending needed lower upper (b # bs) =
     (if needed \<noteq> 0 \<and> lower \<le> of_char b \<and> (of_char b :: nat) \<le> upper then
        (if needed = 1 then pending @ [b] @ utf8_scan [] 0 0x80 0xBF bs
         else utf8_scan (pending @ [b]) (needed - 1) 0x80 0xBF bs)
      else
        (if needed \<noteq> 0 then replacement else []) @
        (if (of_char b :: nat) < 0x80 then b # utf8_scan [] 0 0x80 0xBF bs
         else case utf8_lead (of_char b) of
                Some (n, l, u) \<Rightarrow> utf8_scan [b] n l u bs
              | None \<Rightarrow> replacement @ utf8_scan [] 0 0x80 0xBF bs))"

definition toString_utf8 :: "string \<Rightarrow> string" where
  "toString_utf8 bytes = utf8_scan [] 0 0x80 0xBF bytes"

text \<open>The UTF-8 bytes of one UTF-16 code unit, as a \<open>\uXXXX\<close> escape denotes it.\<close>

definition utf8_of_code_unit :: "nat \<Rightarrow> string" where
  "utf8_of_code_unit n =
     (if n < 0x80 then [char_of n]
      else if n < 0x800 then [char_of (0xC0 + n div 64), char_of (0x80 + n mod 64)]
      else [char_of (0xE0 + n div 4096), char_of (0x80 + (n div 64) mod 64), char_of (0x80 + n mod 64)])"


subsection \<open>JSON.parse\<close>

text \<open>
  The JSON grammar (ECMA-404), parsed by recursive descent. White space is space, tab,
  line feed, carriage return. A function returns the value parsed and the rest of the
  text, or \<open>None\<close> for a syntax error.
\<close>

definition json_ws :: "char \<Rightarrow> bool" where
  "json_ws c \<longleftrightarrow> (of_char c :: nat) \<in> {0x20, 0x09, 0x0A, 0x0D}"

definition skip_ws :: "string \<Rightarrow> string" where
  "skip_ws s = dropWhile json_ws s"

definition is_digit :: "char \<Rightarrow> bool" where
  "is_digit c \<longleftrightarrow> in_range CHR ''0'' CHR ''9'' c"

definition digits_value :: "string \<Rightarrow> nat" where
  "digits_value ds = foldl (\<lambda>acc c. 10 * acc + (of_char c - 48)) 0 ds"

definition hex_value :: "char \<Rightarrow> nat option" where
  "hex_value c =
     (if is_digit c then Some (of_char c - 48)
      else if in_range CHR ''a'' CHR ''f'' c then Some (of_char c - 97 + 10)
      else if in_range CHR ''A'' CHR ''F'' c then Some (of_char c - 65 + 10)
      else None)"

definition hex4 :: "string \<Rightarrow> nat option" where
  "hex4 s =
     (case map hex_value s of
        [Some a, Some b, Some c, Some d] \<Rightarrow> Some (((a * 16 + b) * 16 + c) * 16 + d)
      | _ \<Rightarrow> None)"

text \<open>The character after a backslash, other than \<open>u\<close>.\<close>

definition unescape :: "char \<Rightarrow> char option" where
  "unescape e =
     (if e = CHR 0x22 \<or> e = CHR 0x5C \<or> e = CHR ''/'' then Some e
      else if e = CHR ''b'' then Some (CHR 0x08)
      else if e = CHR ''f'' then Some (CHR 0x0C)
      else if e = CHR ''n'' then Some (CHR 0x0A)
      else if e = CHR ''r'' then Some (CHR 0x0D)
      else if e = CHR ''t'' then Some (CHR 0x09)
      else None)"

text \<open>
  A string, read after its opening quote up to the closing one. A control character
  below U+0020 must be escaped.
\<close>

fun parse_string :: "string \<Rightarrow> (string \<times> string) option" where
  "parse_string [] = None"
| "parse_string (c # cs) =
     (if c = CHR 0x22 then Some ([], cs)
      else if c = CHR 0x5C then
        (case cs of
           [] \<Rightarrow> None
         | e # r \<Rightarrow>
             if e = CHR ''u'' then
               (case hex4 (take 4 r) of
                  None \<Rightarrow> None
                | Some n \<Rightarrow>
                    (case parse_string (drop 4 r) of
                       None \<Rightarrow> None
                     | Some (str, rest) \<Rightarrow> Some (utf8_of_code_unit n @ str, rest)))
             else
               (case unescape e of
                  None \<Rightarrow> None
                | Some ch \<Rightarrow>
                    (case parse_string r of
                       None \<Rightarrow> None
                     | Some (str, rest) \<Rightarrow> Some (ch # str, rest))))
      else if (of_char c :: nat) < 0x20 then None
      else
        (case parse_string cs of
           None \<Rightarrow> None
         | Some (str, rest) \<Rightarrow> Some (c # str, rest)))"

text \<open>
  A number: an optional minus, an integer part without a leading zero, an optional
  fraction, an optional exponent. Its value is the rational the numeral denotes.
\<close>

definition number_int_part :: "string \<Rightarrow> string" where
  "number_int_part s = (if take 1 s = ''0'' then ''0'' else takeWhile is_digit s)"

definition number_frac :: "string \<Rightarrow> (string \<times> string) option" where
  "number_frac s =
     (if take 1 s = ''.'' then
        (let frac_part = takeWhile is_digit (drop 1 s)
         in if frac_part = [] then None else Some (frac_part, drop (1 + length frac_part) s))
      else Some ([], s))"

definition number_exp :: "string \<Rightarrow> (int \<times> string) option" where
  "number_exp s =
     (if take 1 s = ''e'' \<or> take 1 s = ''E'' then
        (let s1 = drop 1 s;
             s2 = (if take 1 s1 = ''-'' \<or> take 1 s1 = ''+'' then drop 1 s1 else s1);
             exp_part = takeWhile is_digit s2
         in if exp_part = [] then None
            else Some (if take 1 s1 = ''-'' then - int (digits_value exp_part) else int (digits_value exp_part),
                       drop (length exp_part) s2))
      else Some (0, s))"

definition number_value :: "bool \<Rightarrow> nat \<Rightarrow> int \<Rightarrow> rat" where
  "number_value negative mantissa exponent =
     (let magnitude = (if exponent \<ge> 0 then of_nat mantissa * 10 ^ nat exponent
                       else of_nat mantissa / 10 ^ nat (- exponent))
      in if negative then - magnitude else magnitude)"

definition parse_number :: "string \<Rightarrow> (jsval \<times> string) option" where
  "parse_number s =
     (let negative = (take 1 s = ''-'');
          s1 = (if negative then drop 1 s else s);
          int_part = number_int_part s1
      in if int_part = [] then None
         else
           (case number_frac (drop (length int_part) s1) of
              None \<Rightarrow> None
            | Some (frac_part, s2) \<Rightarrow>
                (case number_exp s2 of
                   None \<Rightarrow> None
                 | Some (exponent, rest) \<Rightarrow>
                     Some (JNum (number_value negative (digits_value (int_part @ frac_part))
                                   (exponent - int (length frac_part))),
                           rest))))"

text \<open>
  Values, the elements of an array after \<open>[\<close>, and the members of an object after \<open>{\<close>.
  The first argument bounds the depth of the recursion; the length of the text is
  enough, since every call that uses one unit has read at least one character. Members
  are stored in order, a repeated key overwriting the earlier value.
\<close>

fun parse_value :: "nat \<Rightarrow> string \<Rightarrow> (jsval \<times> string) option"
  and parse_elements :: "nat \<Rightarrow> string \<Rightarrow> (jsval list \<times> string) option"
  and parse_members :: "nat \<Rightarrow> string \<Rightarrow> ((string \<times> jsval) list \<times> string) option" where
  "parse_value 0 s = None"
| "parse_value (Suc n) s =
     (if take 1 s = ''{'' then
        (if take 1 (skip_ws (drop 1 s)) = ''}'' then Some (JObj [], drop 1 (skip_ws (drop 1 s)))
         else case parse_members n (skip_ws (drop 1 s)) of
                None \<Rightarrow> None
              | Some (members, rest) \<Rightarrow> Some (JObj (obj_set_all [] members), rest))
      else if take 1 s = ''['' then
        (if take 1 (skip_ws (drop 1 s)) = '']'' then Some (JArr [], drop 1 (skip_ws (drop 1 s)))
         else case parse_elements n (skip_ws (drop 1 s)) of
                None \<Rightarrow> None
              | Some (elements, rest) \<Rightarrow> Some (JArr elements, rest))
      else if take 1 s = [CHR 0x22] then
        (case parse_string (drop 1 s) of
           None \<Rightarrow> None
         | Some (str, rest) \<Rightarrow> Some (JStr str, rest))
      else if take 1 s = ''-'' \<or> list_all is_digit (take 1 s) \<and> s \<noteq> [] then parse_number s
      else if take 4 s = ''true'' then Some (JBool True, drop 4 s)
      else if take 5 s = ''false'' then Some (JBool False, drop 5 s)
      else if take 4 s = ''null'' then Some (JNull, drop 4 s)
      else None)"
| "parse_elements 0 s = None"
| "parse_elements (Suc n) s =
     (case parse_value n s of
        None \<Rightarrow> None
      | Some (v, r) \<Rightarrow>
          if take 1 (skip_ws r) = '','' then
            (case parse_elements n (skip_ws (drop 1 (skip_ws r))) of
               None \<Rightarrow> None
             | Some (vs, rest) \<Rightarrow> Some (v # vs, rest))
          else if take 1 (skip_ws r) = '']'' then Some ([v], drop 1 (skip_ws r))
          else None)"
| "parse_members 0 s = None"
| "parse_members (Suc n) s =
     (if take 1 s \<noteq> [CHR 0x22] then None
      else case parse_string (drop 1 s) of
        None \<Rightarrow> None
      | Some (key, r0) \<Rightarrow>
          if take 1 (skip_ws r0) \<noteq> '':'' then None
          else
            (case parse_value n (skip_ws (drop 1 (skip_ws r0))) of
               None \<Rightarrow> None
             | Some (v, r) \<Rightarrow>
                 if take 1 (skip_ws r) = '','' then
                   (case parse_members n (skip_ws (drop 1 (skip_ws r))) of
                      None \<Rightarrow> None
                    | Some (members, rest) \<Rightarrow> Some ((key, v) # members, rest))
                 else if take 1 (skip_ws r) = ''}'' then Some ([(key, v)], drop 1 (skip_ws r))
                 else None))"

text \<open>\<open>JSON.parse(text)\<close>: one value between optional white space, or a SyntaxError.\<close>

definition JSON_parse :: "string \<Rightarrow> js_error + jsval" where
  "JSON_parse text =
     (case parse_value (Suc (length text)) (skip_ws text) of
        None \<Rightarrow> Inl (Error ''Unexpected token in JSON'')
      | Some (v, rest) \<Rightarrow>
          if skip_ws rest = [] then Inr v else Inl (Error ''Unexpected non-whitespace character after JSON''))"

subsection \<open>JSON.stringify and base64 encoding\<close>










section \<open>scraper.js: the episode page\<close>

text \<open>
  The parsed episode page, as far as the code reads it through cheerio:
  \<^item> \<open>venutama_h1\<close>: \<open>$('.venutama h1').first().text()\<close>, empty when nothing matches;
  \<^item> \<open>iframe_src\<close>: \<open>$('iframe').first().attr('src')\<close>, a string or \<open>undefined\<close>;
  \<^item> \<open>mirror_tabs\<close>: the elements of \<open>$('.mirrorstream .tabs li a')\<close> in document order,
    each with its text and with \<open>tab_links\<close>, the elements that
    \<open>$(targetId + ' ul li a')\<close> selects for its \<open>href\<close> (\<open>Inl\<close> when the selector
    engine throws on the selector);
  \<^item> an element of a tier has its text and \<open>$(el).data('content')\<close>;
  \<^item> \<open>download_items\<close>: the elements of \<open>$('.download ul li')\<close>, each with the text of its
    \<open>strong\<close> and the text and \<open>href\<close> of every \<open>a\<close>.
\<close>

record anchor =
  anchor_text :: string
  data_content :: jsval

record tab =
  tab_text :: string
  tab_links :: "js_error + anchor list"

record download_item =
  strong_text :: string
  item_links :: "(string \<times> jsval) list"

record episode_doc =
  venutama_h1 :: string
  iframe_src :: jsval
  mirror_tabs :: "tab list"
  download_items :: "download_item list"

text \<open>
  The upstream site during one run: what it answers to attempt \<open>i\<close> of the page fetch
  (the document is \<open>cheerio.load(response.data)\<close>), and what it answers to each POST of
  the run: the nonce request of getEpisodeStreaming (\<open>NoncePost 0\<close>), the one of
  extractMirrorLinks (\<open>NoncePost 1\<close>), and the request that resolves element \<open>j\<close> of
  tier \<open>i\<close> (\<open>ResolvePost i j\<close>).
\<close>

datatype call_site = NoncePost nat | ResolvePost nat nat

record upstream =
  page :: "nat \<Rightarrow> string \<Rightarrow> episode_doc http_outcome"
  ajax :: "call_site \<Rightarrow> ajax_request \<Rightarrow> jsval http_outcome"

definition nonce_action :: string where
  "nonce_action = ''aa1208d27f29ca340c92c66d1926f13f''"

definition resolve_action :: string where
  "resolve_action = ''2a3505c93b0035d3f455df82bf976b84''"

text \<open>
  \<^verbatim>\<open>
  async getNonce(sourceUrl) {
    try {
      const { data } = await httpClient.post(
        `${sourceUrl}/wp-admin/admin-ajax.php`,
        new URLSearchParams({ action: 'aa1208d27f29ca340c92c66d1926f13f' }),
        { headers: { 'x-requested-with': 'XMLHttpRequest', 'origin': sourceUrl } }
      );
      return data?.data || null;
    } catch (error) {
      console.warn('Failed to get nonce:', error.message);
      return null;
    }
  },
  \<close>
\<close>

definition nonce_request :: "string \<Rightarrow> ajax_request" where
  "nonce_request sourceUrl =
     \<lparr> url = sourceUrl @ ''/wp-admin/admin-ajax.php'', referer = None,
       form = [(''action'', JStr nonce_action)] \<rparr>"

definition getNonce :: "(ajax_request \<Rightarrow> jsval http_outcome) \<Rightarrow> string \<Rightarrow> jsval" where
  "getNonce post sourceUrl =
     (case httpClient (post (nonce_request sourceUrl)) of
        Inr data \<Rightarrow> js_or (js_get data ''data'') JNull
      | Inl error \<Rightarrow> JNull)"

text \<open>
  \<open>html.match(/src="([^"]+)"/)\<close>: the first place where \<open>src="\<close> is followed by one or
  more characters other than \<open>"\<close> and then by \<open>"\<close>; the result is those characters.
\<close>

definition match_at :: "string \<Rightarrow> string option" where
  "match_at s =
     (if take 5 s = ''src='' @ [CHR 0x22] then
        (let captured = takeWhile (\<lambda>c. c \<noteq> CHR 0x22) (drop 5 s)
         in if captured \<noteq> [] \<and> take 1 (drop (5 + length captured) s) = [CHR 0x22]
            then Some captured else None)
      else None)"

fun match_src :: "string \<Rightarrow> string option" where
  "match_src [] = None"
| "match_src (c # cs) =
     (case match_at (c # cs) of Some captured \<Rightarrow> Some captured | None \<Rightarrow> match_src cs)"

text \<open>
  \<^verbatim>\<open>
  async fetchIframeUrl(content, nonce, sourceUrl, slug) {
    try {
      const payload = JSON.parse(Buffer.from(content, 'base64').toString('utf-8'));
      const body = new URLSearchParams({
        ...payload,
        nonce,
        action: '2a3505c93b0035d3f455df82bf976b84',
      });
      const { data } = await httpClient.post(
        `${sourceUrl}/wp-admin/admin-ajax.php`,
        body.toString(),
        { headers: { 'x-requested-with': 'XMLHttpRequest', 'origin': sourceUrl,
                     'referer': utils.buildUrl(sourceUrl, `/episode/${slug}`) } }
      );
      if (!data?.data) return null;
      const html = Buffer.from(data.data, 'base64').toString('utf-8');
      const match = html.match(/src="([^"]+)"/);
      return match ? match[1] : null;
    } catch (error) {
      console.warn('Failed to fetch iframe URL:', error.message);
      return null;
    }
  }
  \<close>
  \<open>decode_payload\<close> is the first line of the \<open>try\<close> block, \<open>fetchIframeUrl_try\<close> the
  whole block (\<open>Inl\<close> what it throws), \<open>fetchIframeUrl\<close> the function.
  \<open>resolve_request\<close> is the request sent; its form body is given by its fields before
  URL encoding.
\<close>

definition decode_payload :: "jsval \<Rightarrow> js_error + jsval" where
  "decode_payload content =
     (case Buffer_from_base64 content of
        Inl error \<Rightarrow> Inl error
      | Inr bytes \<Rightarrow> JSON_parse (toString_utf8 bytes))"

definition resolve_request :: "jsval \<Rightarrow> jsval \<Rightarrow> string \<Rightarrow> string \<Rightarrow> ajax_request" where
  "resolve_request payload nonce sourceUrl slug =
     \<lparr> url = sourceUrl @ ''/wp-admin/admin-ajax.php'',
       referer = Some (buildUrl sourceUrl (''/episode/'' @ slug)),
       form = obj_set_all [] (spread payload @ [(''nonce'', nonce), (''action'', JStr resolve_action)]) \<rparr>"

definition fetchIframeUrl_try ::
  "(ajax_request \<Rightarrow> jsval http_outcome) \<Rightarrow> jsval \<Rightarrow> jsval \<Rightarrow> string \<Rightarrow> string \<Rightarrow> js_error + jsval" where
  "fetchIframeUrl_try post content nonce sourceUrl slug =
     (case decode_payload content of
        Inl error \<Rightarrow> Inl error
      | Inr payload \<Rightarrow>
          (case httpClient (post (resolve_request payload nonce sourceUrl slug)) of
             Inl error \<Rightarrow> Inl error
           | Inr data \<Rightarrow>
               if \<not> truthy (js_get data ''data'') then Inr JNull
               else
                 (case Buffer_from_base64 (js_get data ''data'') of
                    Inl error \<Rightarrow> Inl error
                  | Inr bytes \<Rightarrow>
                      (case match_src (toString_utf8 bytes) of
                         Some captured \<Rightarrow> Inr (JStr captured)
                       | None \<Rightarrow> Inr JNull))))"

definition fetchIframeUrl ::
  "(ajax_request \<Rightarrow> jsval http_outcome) \<Rightarrow> jsval \<Rightarrow> jsval \<Rightarrow> string \<Rightarrow> string \<Rightarrow> jsval" where
  "fetchIframeUrl post content nonce sourceUrl slug =
     (case fetchIframeUrl_try post content nonce sourceUrl slug of
        Inl error \<Rightarrow> JNull
      | Inr result \<Rightarrow> result)"

text \<open>
  \<^verbatim>\<open>
  async extractMirrorLinks($, sourceUrl, slug) {
    const nonce = await this.getNonce(sourceUrl);
    if (!nonce) return [];
    const mirrorsByQuality = {};
    const qualityPromises = [];
    $('.mirrorstream .tabs li a').each((_, tab) => {
        const quality = $(tab).text().trim(); // e.g., 360p, 480p
        const targetId = $(tab).attr('href'); // e.g., #m360p
        const linkPromises = $(targetId + ' ul li a').map(async (_, el) => {
            const content = $(el).data('content');
            if (!content) return null;
            const url = await this.fetchIframeUrl(content, nonce, sourceUrl, slug);
            return { name: $(el).text().trim(), url };
        }).get();
        qualityPromises.push(
            Promise.all(linkPromises).then(links => {
                mirrorsByQuality[quality] = links.filter(Boolean);
            })
        );
    });
    await Promise.all(qualityPromises);
    return mirrorsByQuality;
  },
  \<close>
  \<open>link_results\<close> are the values the promises of \<open>linkPromises\<close> resolve to for tier
  \<open>i\<close>, \<open>tier_results\<close> the assignment each tier makes once its promises are done. The
  assignments happen in the order in which the tiers complete: \<open>order\<close>, a permutation
  of the tier indices. A selector that throws inside \<open>each\<close> rejects the whole call.
\<close>

definition link_results ::
  "upstream \<Rightarrow> jsval \<Rightarrow> string \<Rightarrow> string \<Rightarrow> nat \<Rightarrow> anchor list \<Rightarrow> jsval list" where
  "link_results up nonce sourceUrl slug i els =
     map (\<lambda>(j, el).
            if \<not> truthy (data_content el) then JNull
            else JObj [(''name'', JStr (trim (anchor_text el))),
                       (''url'', fetchIframeUrl (ajax up (ResolvePost i j)) (data_content el) nonce sourceUrl slug)])
         (enumerate 0 els)"

fun first_error :: "('e + 'a) list \<Rightarrow> 'e option" where
  "first_error [] = None"
| "first_error (Inl e # xs) = Some e"
| "first_error (Inr x # xs) = first_error xs"

definition tier_results ::
  "upstream \<Rightarrow> jsval \<Rightarrow> string \<Rightarrow> string \<Rightarrow> tab list \<Rightarrow> (string \<times> jsval) list" where
  "tier_results up nonce sourceUrl slug tabs =
     map (\<lambda>(i, t).
            (trim (tab_text t),
             JArr (filter truthy
                     (link_results up nonce sourceUrl slug i
                        (case tab_links t of Inr els \<Rightarrow> els | Inl e \<Rightarrow> [])))))
         (enumerate 0 tabs)"

definition extractMirrorLinks ::
  "upstream \<Rightarrow> nat list \<Rightarrow> episode_doc \<Rightarrow> string \<Rightarrow> string \<Rightarrow> js_error + jsval" where
  "extractMirrorLinks up order doc sourceUrl slug =
     (let nonce = getNonce (ajax up (NoncePost 1)) sourceUrl
      in if \<not> truthy nonce then Inr (JArr [])
         else
           (case first_error (map tab_links (mirror_tabs doc)) of
              Some error \<Rightarrow> Inl error
            | None \<Rightarrow>
                (let results = tier_results up nonce sourceUrl slug (mirror_tabs doc)
                 in Inr (JObj (obj_set_all []
                      (map (\<lambda>i. results ! i) (filter (\<lambda>i. i < length results) order)))))))"

text \<open>
  \<^verbatim>\<open>
  async extractDownloadLinks($) {
    const downloads = {};
    $('.download ul li').each((_, li) => {
      const quality = $(li).find('strong').text().trim();
      if (!quality) return;
      downloads[quality] = $(li).find('a').map((_, a) => ({
        provider: $(a).text().trim(),
        url: $(a).attr('href')
      })).get();
    });
    return downloads;
  },
  \<close>
\<close>

definition extractDownloadLinks :: "episode_doc \<Rightarrow> jsval" where
  "extractDownloadLinks doc =
     JObj (obj_set_all []
       (List.map_filter
          (\<lambda>li. let quality = trim (strong_text li)
                in if quality = [] then None
                   else Some (quality,
                          JArr (map (\<lambda>(text, href). JObj [(''provider'', JStr (trim text)), (''url'', href)])
                                  (item_links li))))
          (download_items doc)))"

text \<open>An element of \<open>Promise.allSettled\<close>: a promise that rejects, or one that fulfils.\<close>

definition settle :: "js_error + jsval \<Rightarrow> settled" where
  "settle outcome = (case outcome of Inl error \<Rightarrow> Rejected error | Inr v \<Rightarrow> Fulfilled v)"

text \<open>
  \<^verbatim>\<open>
  async getEpisodeStreaming(slug, sourceUrl) {
    const url = utils.buildUrl(sourceUrl, `/episode/${slug}`);
    try {
      const response = await utils.retryRequest(() => httpClient.get(url));
      const $ = cheerio.load(response.data);
      const title = $('.venutama h1').first().text().trim();
      if (!title) throw new Error('Episode not found');
      const [nonce, mirrorLinks, downloadLinks] = await Promise.allSettled([
        this.getNonce(sourceUrl),
        this.extractMirrorLinks($, sourceUrl, slug),
        this.extractDownloadLinks($)
      ]);
      return {
        title,
        iframe: $('iframe').first().attr('src') || null,
        mirrors: getSettledValue(mirrorLinks, []),
        downloads: getSettledValue(downloadLinks, {})
      };
    } catch (error) {
      console.error(...);
      throw error;
    }
  },
  \<close>
  \<open>streaming_result\<close> is the object returned, from the three settled promises;
  \<open>fetch_episode\<close> is the page fetch under retryRequest with its default arguments.
\<close>

definition streaming_result :: "string \<Rightarrow> episode_doc \<Rightarrow> settled \<Rightarrow> settled \<Rightarrow> settled \<Rightarrow> jsval" where
  "streaming_result title doc nonce mirrorLinks downloadLinks =
     JObj [(''title'', JStr title),
           (''iframe'', js_or (iframe_src doc) JNull),
           (''mirrors'', getSettledValue mirrorLinks (JArr [])),
           (''downloads'', getSettledValue downloadLinks (JObj []))]"

definition fetch_episode :: "upstream \<Rightarrow> string \<Rightarrow> string \<Rightarrow> js_error + episode_doc option" where
  "fetch_episode up slug sourceUrl =
     fst (retryRequest (\<lambda>i. httpClient (page up i (buildUrl sourceUrl (''/episode/'' @ slug)))) 2 1000)"

definition getEpisodeStreaming ::
  "upstream \<Rightarrow> nat list \<Rightarrow> string \<Rightarrow> string \<Rightarrow> js_error + jsval" where
  "getEpisodeStreaming up order slug sourceUrl =
     (case fetch_episode up slug sourceUrl of
        Inl error \<Rightarrow> Inl error
      | Inr None \<Rightarrow> Inl (Error ''Cannot read properties of undefined (reading 'data')'')
      | Inr (Some doc) \<Rightarrow>
          (let title = trim (venutama_h1 doc)
           in if title = [] then Inl (Error ''Episode not found'')
              else Inr (streaming_result title doc
                          (settle (Inr (getNonce (ajax up (NoncePost 0)) sourceUrl)))
                          (settle (extractMirrorLinks up order doc sourceUrl slug))
                          (settle (Inr (extractDownloadLinks doc))))))"

section \<open>routes.js\<close>

text \<open>
  A handler sends one reply. What it does to the cache and to the scraper on the way is
  recorded in order. The cache is the store of node-cache without its expiry.
\<close>

record reply =
  reply_status :: int
  reply_body :: jsval

datatype effect = CacheGet string | AsyncCall | CacheSet string jsval int

text \<open>
  \<^verbatim>\<open>
  const withCache = async (req, res, cacheKey, cacheDuration, asyncFunction) => {
    const cache = req.app.locals.cache;
    try {
      const cached = cache.get(cacheKey);
      if (cached) {
        return res.json(cached);
      }
      const result = await asyncFunction();
      if (result && typeof result === 'object' && result.success) {
        cache.set(cacheKey, result, cacheDuration);
      }
      res.json(result);
    } catch (error) {
      const errorInfo = utils.handleError(error);
      res.status(errorInfo.status).json({
        error: errorInfo.message,
        success: false,
        timestamp: new Date().toISOString()
      });
    }
  };
  \<close>
  \<open>asyncFunction\<close> is the outcome of the call; \<open>now\<close> is the time stamp.
\<close>

definition is_object :: "jsval \<Rightarrow> bool" where
  "is_object v = (case v of JObj kvs \<Rightarrow> True | JArr xs \<Rightarrow> True | JNull \<Rightarrow> True | _ \<Rightarrow> False)"

definition withCache ::
  "string \<Rightarrow> (string \<rightharpoonup> jsval) \<Rightarrow> string \<Rightarrow> int \<Rightarrow> js_error + jsval
     \<Rightarrow> reply \<times> (string \<rightharpoonup> jsval) \<times> effect list" where
  "withCache now cache cacheKey cacheDuration asyncFunction =
     (let cached = (case cache cacheKey of Some v \<Rightarrow> v | None \<Rightarrow> JUndefined)
      in if truthy cached then (\<lparr> reply_status = 200, reply_body = cached \<rparr>, cache, [CacheGet cacheKey])
         else
           (case asyncFunction of
              Inr result \<Rightarrow>
                if truthy result \<and> is_object result \<and> truthy (js_get result ''success'')
                then (\<lparr> reply_status = 200, reply_body = result \<rparr>, cache(cacheKey \<mapsto> result),
                      [CacheGet cacheKey, AsyncCall, CacheSet cacheKey result cacheDuration])
                else (\<lparr> reply_status = 200, reply_body = result \<rparr>, cache, [CacheGet cacheKey, AsyncCall])
            | Inl error \<Rightarrow>
                (\<lparr> reply_status = fst (handleError error),
                    reply_body = JObj [(''error'', JStr (snd (handleError error))),
                                       (''success'', JBool False), (''timestamp'', JStr now)] \<rparr>,
                 cache, [CacheGet cacheKey, AsyncCall])))"

text \<open>\<open>config.sourceUrl\<close> and \<open>config.cache.routeCacheTTL\<close> (in seconds) of config.js.\<close>

definition config_sourceUrl :: string where
  "config_sourceUrl = ''https://otakudesu.cloud''"

definition routeCacheTTL_anime :: int where
  "routeCacheTTL_anime = 300"

definition routeCacheTTL_episode :: int where
  "routeCacheTTL_episode = 180"

text \<open>
  \<^verbatim>\<open>
  router.get('/episode/:slug', async (req, res) => {
    const { slug } = req.params;
    const { config } = req.app.locals;
    if (!utils.isValidSlug(slug)) {
      return res.status(400).json({ error: 'Invalid episode slug', success: false });
    }
    const cacheKey = utils.generateCacheKey('episode', slug);
    await withCache(req, res, cacheKey, config.cache.routeCacheTTL.episode, async () => {
      const streaming = await scrapers.getEpisodeStreaming(slug, config.sourceUrl);
      return { success: true, slug, data: streaming, timestamp: new Date().toISOString() };
    });
  });
  \<close>
  and the same for \<open>/anime/:slug\<close> with getAnimeDetails. \<open>scraper\<close> is the scraper
  function (for \<open>/anime/:slug\<close>, with its two URL arguments applied). A slug that
  passes isValidSlug is a string; the last case of each handler is never reached.
\<close>

definition episode_route ::
  "string \<Rightarrow> (string \<Rightarrow> string \<Rightarrow> js_error + jsval) \<Rightarrow> (string \<rightharpoonup> jsval) \<Rightarrow> jsval
     \<Rightarrow> reply \<times> (string \<rightharpoonup> jsval) \<times> effect list" where
  "episode_route now scraper cache slug =
     (if \<not> isValidSlug slug
      then (\<lparr> reply_status = 400,
               reply_body = JObj [(''error'', JStr ''Invalid episode slug''), (''success'', JBool False)] \<rparr>,
            cache, [])
      else
        (case slug of
           JStr s \<Rightarrow>
             withCache now cache (generateCacheKey ''episode'' [Some s]) routeCacheTTL_episode
               (case scraper s config_sourceUrl of
                  Inl error \<Rightarrow> Inl error
                | Inr streaming \<Rightarrow>
                    Inr (JObj [(''success'', JBool True), (''slug'', slug), (''data'', streaming),
                               (''timestamp'', JStr now)]))
         | _ \<Rightarrow> (\<lparr> reply_status = 400, reply_body = JUndefined \<rparr>, cache, [])))"

definition anime_route ::
  "string \<Rightarrow> (string \<Rightarrow> js_error + jsval) \<Rightarrow> (string \<rightharpoonup> jsval) \<Rightarrow> jsval
     \<Rightarrow> reply \<times> (string \<rightharpoonup> jsval) \<times> effect list" where
  "anime_route now scraper cache slug =
     (if \<not> isValidSlug slug
      then (\<lparr> reply_status = 400,
               reply_body = JObj [(''error'', JStr ''Invalid anime slug''), (''success'', JBool False)] \<rparr>,
            cache, [])
      else
        (case slug of
           JStr s \<Rightarrow>
             withCache now cache (generateCacheKey ''anime'' [Some s]) routeCacheTTL_anime
               (case scraper s of
                  Inl error \<Rightarrow> Inl error
                | Inr details \<Rightarrow>
                    Inr (JObj [(''success'', JBool True), (''slug'', slug), (''data'', details),
                               (''timestamp'', JStr now)]))
         | _ \<Rightarrow> (\<lparr> reply_status = 400, reply_body = JUndefined \<rparr>, cache, [])))"


section \<open>Traces and sample inputs\<close>

text \<open>
  The run of retryRequest that makes \<open>n\<close> calls, the first numbered \<open>i\<close>, under linear
  backoff: between call \<open>k\<close> and the next, a wait of \<open>delay * (k + 1)\<close>.
\<close>

fun linear_backoff_trace :: "int \<Rightarrow> nat \<Rightarrow> nat \<Rightarrow> retry_event list" where
  "linear_backoff_trace delay i 0 = []"
| "linear_backoff_trace delay i (Suc 0) = [Called i]"
| "linear_backoff_trace delay i (Suc (Suc n)) =
     Called i # Waited (delay * (int i + 1)) # linear_backoff_trace delay (i + 1) (Suc n)"

text \<open>An upstream that gives the same answer to every request.\<close>

definition always :: "'d http_outcome \<Rightarrow> ajax_request \<Rightarrow> 'd http_outcome" where
  "always outcome request = outcome"

text \<open>
  A request function that fails twice without a response and then gets a 404, and one
  that never gets a response.
\<close>

definition not_found_error :: js_error where
  "not_found_error = \<lparr> code = Some ''ERR_BAD_REQUEST'', message = ''Request failed with status code 404'',
                        response_status = Some 404 \<rparr>"

definition fails_then_404 :: "nat \<Rightarrow> js_error + jsval" where
  "fails_then_404 i = (if i < 1 then Inl (Error ''socket hang up'') else Inl not_found_error)"

definition never_answers :: "nat \<Rightarrow> js_error + jsval" where
  "never_answers i = Inl (Error ''socket hang up'')"

text \<open>
  An episode page with two tiers. The payload \<open>eyJpIjoxfQ==\<close> is \<open>{"i":1}\<close>; the second
  element of the first tier has an empty payload; the payload \<open>bm9wZQ==\<close> of the second
  tier is \<open>nope\<close>, which is not JSON.
\<close>

definition sample_doc :: episode_doc where
  "sample_doc =
     \<lparr> venutama_h1 = '' Episode 1 '',
       iframe_src = JStr ''https://e.x/1'',
       mirror_tabs =
         [\<lparr> tab_text = ''360p'',
            tab_links = Inr [\<lparr> anchor_text = ''m1'', data_content = JStr ''eyJpIjoxfQ=='' \<rparr>,
                             \<lparr> anchor_text = ''m2'', data_content = JStr [] \<rparr>] \<rparr>,
          \<lparr> tab_text = ''720p'',
            tab_links = Inr [\<lparr> anchor_text = ''m3'', data_content = JStr ''bm9wZQ=='' \<rparr>] \<rparr>],
       download_items = [\<lparr> strong_text = ''Mp4 360p'', item_links = [(''Zippy'', JStr ''https://z.x/1'')] \<rparr>] \<rparr>"


text \<open>
  Upstreams: one that answers every request (the nonce \<open>n1\<close>; the fragment
  \<open>c3JjPSJ1Ig==\<close>, which is \<open>src="u"\<close>), one whose nonce requests get no response, and
  one that serves the page without a title.
\<close>

definition upstream_ok :: upstream where
  "upstream_ok =
     \<lparr> page = (\<lambda>i u. Response 200 sample_doc),
       ajax = (\<lambda>site. case site of
                 NoncePost k \<Rightarrow> always (Response 200 (JObj [(''data'', JStr ''n1'')]))
               | ResolvePost i j \<Rightarrow> always (Response 200 (JObj [(''data'', JStr ''c3JjPSJ1Ig=='')]))) \<rparr>"

definition upstream_no_nonce :: upstream where
  "upstream_no_nonce =
     upstream_ok \<lparr> ajax := (\<lambda>site. always (NoResponse (Error ''socket hang up''))) \<rparr>"


text \<open>A scraper for \<open>/anime/:slug\<close> that finds every slug.\<close>

definition sample_details :: "string \<Rightarrow> js_error + jsval" where
  "sample_details slug = Inr (JObj [(''title'', JStr slug)])"


definition value_end :: "string \<Rightarrow> bool" where
  "value_end rest \<longleftrightarrow> rest = [] \<or> hd rest = CHR '','' \<or> hd rest = CHR '']'' \<or> hd rest = CHR ''}''"

definition prepend :: "char \<Rightarrow> (string \<times> string) option \<Rightarrow> (string \<times> string) option" where
  "prepend c r = (case r of None \<Rightarrow> None | Some (str, rest) \<Rightarrow> Some (c # str, rest))"


section \<open>Lemmas\<close>

lemma calls_simps [simp]:
  "calls [] = 0"
  "calls (Called i # es) = Suc (calls es)"
  "calls (Waited d # es) = calls es"
  by (simp_all add: calls_def)

lemma waits_simps [simp]:
  "waits [] = []"
  "waits (Called i # es) = waits es"
  "waits (Waited d # es) = d # waits es"
  by (simp_all add: waits_def List.map_filter_simps)

lemma retry_loop_calls_bound:
  "calls (snd (retry_loop requestFn maxRetries delay i)) \<le> nat (maxRetries + 1 - int i)"
proof (induction requestFn maxRetries delay i rule: retry_loop.induct)
  case (1 requestFn maxRetries delay i)
  show ?case
  proof (cases "int i \<le> maxRetries")
    case False
    then show ?thesis by (simp add: retry_loop.simps [of requestFn maxRetries delay i])
  next
    case le: True
    show ?thesis
    proof (cases "requestFn i")
      case (Inr v)
      with le show ?thesis by (simp add: retry_loop.simps [of requestFn maxRetries delay i])
    next
      case (Inl error)
      show ?thesis
      proof (cases "int i = maxRetries \<or> no_retry_status error")
        case True
        with le Inl show ?thesis
          by (auto simp add: retry_loop.simps [of requestFn maxRetries delay i])
      next
        case False
        with le Inl "1.IH" [of error]
        have "calls (snd (retry_loop requestFn maxRetries delay (i + 1)))
                \<le> nat (maxRetries + 1 - int (i + 1))" by simp
        moreover have "snd (retry_loop requestFn maxRetries delay i)
                = Called i # Waited (delay * (int i + 1)) # snd (retry_loop requestFn maxRetries delay (i + 1))"
          using le Inl False
          by (simp add: retry_loop.simps [of requestFn maxRetries delay i] split: prod.splits)
        ultimately show ?thesis using le False by simp
      qed
    qed
  qed
qed

lemma retry_loop_calls_pos:
  "int i \<le> maxRetries \<Longrightarrow> 0 < calls (snd (retry_loop requestFn maxRetries delay i))"
  by (simp add: retry_loop.simps [of requestFn maxRetries delay i] split: sum.splits prod.splits)

lemma retry_loop_trace:
  "snd (retry_loop requestFn maxRetries delay i)
     = linear_backoff_trace delay i (calls (snd (retry_loop requestFn maxRetries delay i)))"
proof (induction requestFn maxRetries delay i rule: retry_loop.induct)
  case (1 requestFn maxRetries delay i)
  show ?case
  proof (cases "int i \<le> maxRetries")
    case False
    then show ?thesis by (simp add: retry_loop.simps [of requestFn maxRetries delay i])
  next
    case le: True
    show ?thesis
    proof (cases "requestFn i")
      case (Inr v)
      with le show ?thesis by (simp add: retry_loop.simps [of requestFn maxRetries delay i])
    next
      case (Inl error)
      show ?thesis
      proof (cases "int i = maxRetries \<or> no_retry_status error")
        case True
        with le Inl show ?thesis
          by (auto simp add: retry_loop.simps [of requestFn maxRetries delay i])
      next
        case False
        let ?rest = "snd (retry_loop requestFn maxRetries delay (i + 1))"
        from le Inl False "1.IH" [of error]
        have ih: "?rest = linear_backoff_trace delay (i + 1) (calls ?rest)" by simp
        from le False have "int (i + 1) \<le> maxRetries" by simp
        then have "0 < calls ?rest" by (rule retry_loop_calls_pos)
        then obtain n where n: "calls ?rest = Suc n" by (cases "calls ?rest") auto
        have "snd (retry_loop requestFn maxRetries delay i)
                = Called i # Waited (delay * (int i + 1)) # ?rest"
          using le Inl False
          by (simp add: retry_loop.simps [of requestFn maxRetries delay i] split: prod.splits)
        then show ?thesis using ih n by simp
      qed
    qed
  qed
qed

lemma waits_linear_backoff_trace:
  "waits (linear_backoff_trace delay i n) = map (\<lambda>k. delay * (int k + 1)) [i ..< i + (n - 1)]"
proof (induction delay i n rule: linear_backoff_trace.induct)
  case (3 delay i n)
  then show ?case by (simp add: upt_rec [of i])
qed simp_all

lemma retry_loop_skip:
  "\<lbrakk> \<forall>j. i \<le> j \<and> j < k \<longrightarrow> (\<exists>e. requestFn j = Inl e \<and> \<not> no_retry_status e);
     int k \<le> maxRetries; i \<le> k \<rbrakk> \<Longrightarrow>
   fst (retry_loop requestFn maxRetries delay i) = fst (retry_loop requestFn maxRetries delay k) \<and>
   calls (snd (retry_loop requestFn maxRetries delay i))
     = (k - i) + calls (snd (retry_loop requestFn maxRetries delay k))"
proof (induction "k - i" arbitrary: i)
  case 0
  then show ?case by simp
next
  case (Suc n)
  then have lt: "i < k" by simp
  with Suc.prems obtain e where e: "requestFn i = Inl e" "\<not> no_retry_status e" by auto
  from lt Suc.prems have le: "int i \<le> maxRetries" "int i \<noteq> maxRetries" by auto
  have step: "retry_loop requestFn maxRetries delay i =
     (fst (retry_loop requestFn maxRetries delay (i + 1)),
      Called i # Waited (delay * (int i + 1)) # snd (retry_loop requestFn maxRetries delay (i + 1)))"
    using e le by (simp add: retry_loop.simps [of requestFn maxRetries delay i] split: prod.splits)
  have "n = k - (i + 1)" using Suc.hyps by simp
  from Suc.hyps(1) [OF this] Suc.prems lt
  have "fst (retry_loop requestFn maxRetries delay (i + 1)) = fst (retry_loop requestFn maxRetries delay k) \<and>
   calls (snd (retry_loop requestFn maxRetries delay (i + 1)))
     = (k - (i + 1)) + calls (snd (retry_loop requestFn maxRetries delay k))"
    by simp
  with step lt show ?case by simp
qed

lemma isValidSlug_iff:
  "isValidSlug slug \<longleftrightarrow> (\<exists>s. slug = JStr s \<and> s \<noteq> [] \<and> (\<forall>c \<in> set s. slug_char c))"
  by (cases slug) (auto simp: isValidSlug_def list_all_iff)

lemma valid_slug_reads_cache:
  "isValidSlug slug \<Longrightarrow>
     \<exists>s rest. slug = JStr s \<and>
       snd (snd (episode_route now getEpisodeStreaming_fn cache slug)) = CacheGet (generateCacheKey ''episode'' [Some s]) # rest"
  by (cases slug) (auto simp: isValidSlug_def episode_route_def withCache_def Let_def split: sum.splits)




subsection \<open>Objects and tiers\<close>

















subsection \<open>The pattern \<open>src="..."\<close>\<close>





subsection \<open>Base64 and UTF-8\<close>















subsection \<open>Numbers and strings of JSON\<close>



lemma digit_value_char_of: "(d::nat) < 10 \<Longrightarrow> (of_char (char_of (48 + d)) :: nat) - 48 = d"
  by simp





















lemma parse_string_escaped:
  "unescape e = Some ch \<Longrightarrow> e \<noteq> CHR ''u'' \<Longrightarrow>
     parse_string (CHR 0x5C # e # R) = prepend ch (parse_string R)"
  by (simp add: prepend_def split: option.splits)






subsection \<open>Parsing what stringify wrote\<close>


lemma value_end_Cons [simp]:
  "value_end (CHR '','' # r)" "value_end (CHR '']'' # r)" "value_end (CHR ''}'' # r)" "value_end []"
  by (simp_all add: value_end_def)


lemma skip_ws_punct [simp]:
  "skip_ws (CHR '','' # r) = CHR '','' # r" "skip_ws (CHR '']'' # r) = CHR '']'' # r"
  "skip_ws (CHR ''}'' # r) = CHR ''}'' # r" "skip_ws (CHR '':'' # r) = CHR '':'' # r"
  "skip_ws (CHR 0x22 # r) = CHR 0x22 # r"
  by (simp_all add: skip_ws_def json_ws_def)
















section \<open>The claims\<close>

text \<open>
  C1. (as amended) If getNonce yields no nonce (a falsy value), extractMirrorLinks returns,
  without throwing, the empty array: the result has no key for any quality tier of the
  page.
\<close>

theorem extractMirrorLinks_no_nonce:
  "\<not> truthy (getNonce (ajax up (NoncePost 1)) sourceUrl) \<Longrightarrow>
     extractMirrorLinks up order doc sourceUrl slug = Inr (JArr [])
     \<and> (\<forall>quality. js_get (JArr []) quality = JUndefined)"
  by (simp add: extractMirrorLinks_def js_get_def)

text \<open>C1, at a page with two tiers and an upstream without a nonce.\<close>

theorem extractMirrorLinks_no_nonce_witness:
  "\<not> truthy (getNonce (ajax upstream_no_nonce (NoncePost 1)) config_sourceUrl)
   \<and> extractMirrorLinks upstream_no_nonce [0, 1] sample_doc config_sourceUrl ''ep-1'' = Inr (JArr [])"
proof -
  have "\<not> truthy (getNonce (ajax upstream_no_nonce (NoncePost 1)) config_sourceUrl)"
    by (simp add: upstream_no_nonce_def upstream_ok_def getNonce_def always_def httpClient_def)
  then show ?thesis
    using extractMirrorLinks_no_nonce [of upstream_no_nonce config_sourceUrl "[0, 1]" sample_doc "''ep-1''"]
    by simp
qed

text \<open>
  C1 as stated fails: with no nonce, the tier \<open>360p\<close> of the page is not mapped to an empty
  sequence, it is not a key of the result at all.
\<close>

theorem extractMirrorLinks_no_nonce_counterexample:
  "getNonce (ajax upstream_no_nonce (NoncePost 1)) config_sourceUrl = JNull
   \<and> trim (tab_text (hd (mirror_tabs sample_doc))) = ''360p''
   \<and> extractMirrorLinks upstream_no_nonce [0, 1] sample_doc config_sourceUrl ''ep-1'' = Inr (JArr [])
   \<and> js_get (JArr []) ''360p'' \<noteq> JArr []"
  by (simp add: upstream_no_nonce_def upstream_ok_def getNonce_def always_def httpClient_def
      extractMirrorLinks_def js_get_def sample_doc_def trim_def is_space_def)










text \<open>
  C5. (as amended) getNonce never throws: it returns null when the POST gets no response,
  when the status is 500 or above, and when the body of a response with a status below
  500 has no truthy \<open>data\<close> field; otherwise it returns the \<open>data\<close> field.
\<close>

theorem getNonce_never_throws:
  "(\<forall>error. post (nonce_request sourceUrl) = NoResponse error \<longrightarrow> getNonce post sourceUrl = JNull)
   \<and> (\<forall>status data. post (nonce_request sourceUrl) = Response status data \<and> status \<ge> 500
        \<longrightarrow> getNonce post sourceUrl = JNull)
   \<and> (\<forall>status data. post (nonce_request sourceUrl) = Response status data \<and> status < 500
          \<and> \<not> truthy (js_get data ''data'')
        \<longrightarrow> getNonce post sourceUrl = JNull)
   \<and> (\<forall>status data. post (nonce_request sourceUrl) = Response status data \<and> status < 500
          \<and> truthy (js_get data ''data'')
        \<longrightarrow> getNonce post sourceUrl = js_get data ''data'')"
  by (simp add: getNonce_def httpClient_def validateStatus_def js_or_def)

text \<open>C5, at one upstream for each case.\<close>

theorem getNonce_never_throws_witness:
  "getNonce (always (NoResponse (Error ''socket hang up''))) config_sourceUrl = JNull
   \<and> getNonce (always (Response 503 (JObj [(''data'', JStr ''n1'')]))) config_sourceUrl = JNull
   \<and> getNonce (always (Response 200 (JStr ''0''))) config_sourceUrl = JNull
   \<and> getNonce (always (Response 200 (JObj [(''data'', JStr ''n1'')]))) config_sourceUrl = JStr ''n1''"
  using getNonce_never_throws [of "always (NoResponse (Error ''socket hang up''))" config_sourceUrl]
    getNonce_never_throws [of "always (Response 503 (JObj [(''data'', JStr ''n1'')]))" config_sourceUrl]
    getNonce_never_throws [of "always (Response 200 (JStr ''0''))" config_sourceUrl]
    getNonce_never_throws [of "always (Response 200 (JObj [(''data'', JStr ''n1'')]))" config_sourceUrl]
  by (simp add: always_def js_get_def)

text \<open>
  C5 as stated fails: a 404 response is not a 2xx response, and getNonce returns its
  \<open>data\<close> field, not null.
\<close>

theorem getNonce_4xx_counterexample:
  "getNonce (always (Response 404 (JObj [(''data'', JStr ''n1'')]))) config_sourceUrl \<noteq> JNull"
  by (simp add: getNonce_def always_def httpClient_def validateStatus_def js_or_def js_get_def)

text \<open>
  C6. retryRequest calls the request function at most \<open>1 + maxRetries\<close> times; its run is
  the linear backoff trace, the wait after call \<open>k\<close> being \<open>delay * (k + 1)\<close>; a failure
  with a 4xx status other than 429 is rethrown at once, with no further call; and when
  call \<open>maxRetries\<close> fails, its error is rethrown.
\<close>

theorem retryRequest_bounded_linear_backoff:
  "calls (snd (retryRequest requestFn maxRetries delay)) \<le> nat (1 + maxRetries)
   \<and> snd (retryRequest requestFn maxRetries delay)
       = linear_backoff_trace delay 0 (calls (snd (retryRequest requestFn maxRetries delay)))
   \<and> waits (snd (retryRequest requestFn maxRetries delay))
       = map (\<lambda>k. delay * (int k + 1)) [0 ..< calls (snd (retryRequest requestFn maxRetries delay)) - 1]
   \<and> ((\<forall>j<i. \<exists>e. requestFn j = Inl e \<and> \<not> no_retry_status e) \<and> int i \<le> maxRetries \<and>
        requestFn i = Inl error \<and> response_status error = Some status \<and>
        400 \<le> status \<and> status < 500 \<and> status \<noteq> 429
        \<longrightarrow> fst (retryRequest requestFn maxRetries delay) = Inl error
            \<and> calls (snd (retryRequest requestFn maxRetries delay)) = i + 1)
   \<and> ((\<forall>j<i. \<exists>e. requestFn j = Inl e \<and> \<not> no_retry_status e) \<and> int i = maxRetries \<and>
        requestFn i = Inl error
        \<longrightarrow> fst (retryRequest requestFn maxRetries delay) = Inl error
            \<and> calls (snd (retryRequest requestFn maxRetries delay)) = 1 + nat maxRetries)"
proof -
  let ?run = "retryRequest requestFn maxRetries delay"
  have a: "calls (snd ?run) \<le> nat (1 + maxRetries)"
    using retry_loop_calls_bound [of requestFn maxRetries delay 0]
    by (simp add: retryRequest_def add.commute)
  have b: "snd ?run = linear_backoff_trace delay 0 (calls (snd ?run))"
    unfolding retryRequest_def by (rule retry_loop_trace)
  have c: "waits (snd ?run) = map (\<lambda>k. delay * (int k + 1)) [0 ..< calls (snd ?run) - 1]"
    using waits_linear_backoff_trace [of delay 0 "calls (snd ?run)"] b by simp
  have d: "fst ?run = Inl error \<and> calls (snd ?run) = i + 1"
    if h: "\<forall>j<i. \<exists>e. requestFn j = Inl e \<and> \<not> no_retry_status e" "int i \<le> maxRetries"
      "requestFn i = Inl error" "int i = maxRetries \<or> no_retry_status error" for i error
  proof -
    have "retry_loop requestFn maxRetries delay i = (Inl error, [Called i])"
      using h(2-4) by (auto simp add: retry_loop.simps [of requestFn maxRetries delay i])
    moreover have "fst (retry_loop requestFn maxRetries delay 0) = fst (retry_loop requestFn maxRetries delay i) \<and>
       calls (snd (retry_loop requestFn maxRetries delay 0))
        = (i - 0) + calls (snd (retry_loop requestFn maxRetries delay i))"
      using h(1,2) by (intro retry_loop_skip) auto
    ultimately show ?thesis by (simp add: retryRequest_def)
  qed
  have e: "fst ?run = Inl error \<and> calls (snd ?run) = i + 1"
    if "(\<forall>j<i. \<exists>e. requestFn j = Inl e \<and> \<not> no_retry_status e)" "int i \<le> maxRetries"
       "requestFn i = Inl error" "response_status error = Some status"
        "400 \<le> status" "status < 500" "status \<noteq> 429"
    using that d [of i error] by (simp add: no_retry_status_def)
  have f: "fst ?run = Inl error \<and> calls (snd ?run) = 1 + nat maxRetries"
    if "(\<forall>j<i. \<exists>e. requestFn j = Inl e \<and> \<not> no_retry_status e)" "int i = maxRetries"
       "requestFn i = Inl error"
    using that d [of i error] by auto
  from a b c e f show ?thesis by blast
qed

text \<open>C6, at a request that fails once and then gets a 404, and at one that never answers.\<close>

theorem retryRequest_bounded_linear_backoff_witness:
  "fails_then_404 0 = Inl (Error ''socket hang up'') \<and> \<not> no_retry_status (Error ''socket hang up'')
   \<and> fails_then_404 1 = Inl not_found_error \<and> response_status not_found_error = Some 404
   \<and> fst (retryRequest fails_then_404 2 1000) = Inl not_found_error
   \<and> calls (snd (retryRequest fails_then_404 2 1000)) = 2
   \<and> waits (snd (retryRequest fails_then_404 2 1000)) = [1000]
   \<and> never_answers 2 = Inl (Error ''socket hang up'')
   \<and> fst (retryRequest never_answers 2 1000) = Inl (Error ''socket hang up'')
   \<and> calls (snd (retryRequest never_answers 2 1000)) = 3
   \<and> waits (snd (retryRequest never_answers 2 1000)) = [1000, 2000]"
proof -
  have h1: "\<forall>j<1. \<exists>e. fails_then_404 j = Inl e \<and> \<not> no_retry_status e"
    by (simp add: fails_then_404_def no_retry_status_def Error_def)
  have h2: "fails_then_404 1 = Inl not_found_error" "response_status not_found_error = Some 404"
    by (simp_all add: fails_then_404_def not_found_error_def)
  have h3: "\<forall>j<2. \<exists>e. never_answers j = Inl e \<and> \<not> no_retry_status e"
    by (simp add: never_answers_def no_retry_status_def Error_def)
  have h4: "never_answers 2 = Inl (Error ''socket hang up'')"
    by (simp add: never_answers_def)
  have u: "[0..<Suc 0] = [0]" "[0..<2] = [0, 1]"
    by (simp_all add: upt_rec)
  have h5: "fails_then_404 0 = Inl (Error ''socket hang up'')" "\<not> no_retry_status (Error ''socket hang up'')"
    by (simp_all add: fails_then_404_def no_retry_status_def Error_def)
  show ?thesis
    using h1 h2 h3 h4 h5
      retryRequest_bounded_linear_backoff [of fails_then_404 2 1000 1 not_found_error 404]
      retryRequest_bounded_linear_backoff [of never_answers 2 1000 2 "Error ''socket hang up''"]
    by (simp add: u)
qed

text \<open>
  C7. A slug is valid exactly when it is a non-empty string of characters of
  \<open>[a-zA-Z0-9\-_]\<close>. For every other slug, the handlers of \<open>/episode/:slug\<close> and
  \<open>/anime/:slug\<close> reply 400 with \<open>{error, success: false}\<close>, leave the cache as it is
  and perform no cache read, no cache write and no scraper call.
\<close>

theorem invalid_slug_rejected_first:
  "(isValidSlug slug \<longleftrightarrow> (\<exists>s. slug = JStr s \<and> s \<noteq> [] \<and> (\<forall>c \<in> set s. slug_char c)))
   \<and> (\<not> isValidSlug slug \<longrightarrow>
        episode_route now getEpisodeStreaming_fn cache slug =
          (\<lparr> reply_status = 400,
             reply_body = JObj [(''error'', JStr ''Invalid episode slug''), (''success'', JBool False)] \<rparr>,
           cache, [])
        \<and> anime_route now getAnimeDetails_fn cache slug =
          (\<lparr> reply_status = 400,
             reply_body = JObj [(''error'', JStr ''Invalid anime slug''), (''success'', JBool False)] \<rparr>,
           cache, []))"
  using isValidSlug_iff [of slug] by (simp add: episode_route_def anime_route_def)

text \<open>C7, at a slug with a space, at the empty slug and at a number.\<close>

theorem invalid_slug_rejected_first_witness:
  "\<not> isValidSlug (JStr ''ep 1'') \<and> \<not> isValidSlug (JStr []) \<and> \<not> isValidSlug (JNum 7)
   \<and> episode_route ''t'' (getEpisodeStreaming upstream_ok [0, 1]) Map.empty (JStr ''ep 1'') =
          (\<lparr> reply_status = 400,
             reply_body = JObj [(''error'', JStr ''Invalid episode slug''), (''success'', JBool False)] \<rparr>,
           Map.empty, [])
   \<and> anime_route ''t'' sample_details Map.empty (JNum 7) =
          (\<lparr> reply_status = 400,
             reply_body = JObj [(''error'', JStr ''Invalid anime slug''), (''success'', JBool False)] \<rparr>,
           Map.empty, [])"
proof -
  have a: "\<not> isValidSlug (JStr ''ep 1'')"
    by (simp add: isValidSlug_def slug_char_def in_range_def)
  have b: "\<not> isValidSlug (JStr [])" "\<not> isValidSlug (JNum 7)"
    by (simp_all add: isValidSlug_def)
  show ?thesis
    using a b
      invalid_slug_rejected_first [of "JStr ''ep 1''" "''t''" "getEpisodeStreaming upstream_ok [0, 1]" Map.empty]
      invalid_slug_rejected_first [of "JNum 7" "''t''" _ Map.empty sample_details]
    by simp
qed




text \<open>
  C9. getSettledValue returns the default both for a rejected promise and for a promise
  fulfilled with a falsy value (null, undefined, the empty string, 0, false): the two
  cases give the caller the same result.
\<close>

theorem getSettledValue_falsy_default:
  "\<not> truthy v \<Longrightarrow>
     getSettledValue (Fulfilled v) d = d \<and>
     getSettledValue (Rejected r) d = d \<and>
     getSettledValue (Fulfilled v) d = getSettledValue (Rejected r) d"
  by (simp add: js_or_def)

text \<open>C9, at each falsy value.\<close>

theorem getSettledValue_falsy_default_witness:
  "getSettledValue (Fulfilled JNull) (JArr []) = JArr []
   \<and> getSettledValue (Fulfilled JUndefined) (JArr []) = JArr []
   \<and> getSettledValue (Fulfilled (JStr [])) (JArr []) = JArr []
   \<and> getSettledValue (Fulfilled (JNum 0)) (JArr []) = JArr []
   \<and> getSettledValue (Fulfilled (JBool False)) (JArr []) = JArr []
   \<and> getSettledValue (Rejected (Error ''x'')) (JArr []) = JArr []"
  using getSettledValue_falsy_default [of JNull "JArr []" "Error ''x''"]
    getSettledValue_falsy_default [of JUndefined "JArr []" "Error ''x''"]
    getSettledValue_falsy_default [of "JStr []" "JArr []" "Error ''x''"]
    getSettledValue_falsy_default [of "JNum 0" "JArr []" "Error ''x''"]
    getSettledValue_falsy_default [of "JBool False" "JArr []" "Error ''x''"]
  by simp

text \<open>
  C10. generateCacheKey is not injective: the distinct argument lists \<open>["a b"]\<close> and
  \<open>["a_b"]\<close>, both of them search queries that sanitizeQuery leaves as they are, give
  the same key, and so do \<open>[null, "x"]\<close> and \<open>["x"]\<close>.
\<close>

theorem generateCacheKey_not_injective:
  "generateCacheKey ''search'' [Some ''a b''] = generateCacheKey ''search'' [Some ''a_b'']
   \<and> [Some ''a b''] \<noteq> [Some ''a_b'']
   \<and> sanitizeQuery (JStr ''a b'') = ''a b'' \<and> sanitizeQuery (JStr ''a_b'') = ''a_b''
   \<and> generateCacheKey ''search'' [None, Some ''x''] = generateCacheKey ''search'' [Some ''x'']
   \<and> \<not> inj (generateCacheKey ''search'')"
proof -
  have e1: "generateCacheKey ''search'' [Some ''a b''] = generateCacheKey ''search'' [Some ''a_b'']"
    by (simp add: generateCacheKey_def sanitizeArg_def slug_char_def in_range_def List.map_filter_simps)
  have e2: "generateCacheKey ''search'' [None, Some ''x''] = generateCacheKey ''search'' [Some ''x'']"
    by (simp add: generateCacheKey_def List.map_filter_simps)
  have ne: "[Some ''a b''] \<noteq> [Some ''a_b'']" by simp
  have q: "sanitizeQuery (JStr ''a b'') = ''a b''" "sanitizeQuery (JStr ''a_b'') = ''a_b''"
    by code_simp+
  have "\<not> inj (generateCacheKey ''search'')"
    using e1 ne by (auto simp: inj_def)
  with e1 e2 ne q show ?thesis by blast
qed

end
